theory Spec2Isabelle
  imports Complex_Main "HOL-Library.AList" "HOL-Library.Char_ord" "HOL-Library.List_Lexorder"
begin

section \<open>Values of the Python program\<close>

text \<open>
  The exceptions the modelled code can meet. Every handler of \<^verbatim>\<open>main.py\<close> is
  \<^verbatim>\<open>except Exception\<close>, so the kind only shows in the printed message.
\<close>

datatype exn =
  KeyError | TypeError | IndexError | AttributeError | JSONDecodeError | OSError | ApiException

text \<open>
  A value produced by \<^verbatim>\<open>json.loads\<close>. A dict is an association list read with
  \<open>map_of\<close>; \<open>JInt\<close> is Python's unbounded int, \<open>JReal\<close> a finite float. A string holds
  one \<open>char\<close> per code point (code points below 256).
\<close>

datatype json =
  JNull | JBool bool | JInt int | JReal real | JStr string
  | JList "json list" | JObj "(string \<times> json) list"

text \<open>\<^verbatim>\<open>x[k]\<close> with a string key: only a dict can answer.\<close>

fun subscript_key :: "json \<Rightarrow> string \<Rightarrow> exn + json" where
  "subscript_key (JObj kvs) k = (case map_of kvs k of None \<Rightarrow> Inl KeyError | Some v \<Rightarrow> Inr v)"
| "subscript_key _ k = Inl TypeError"

text \<open>
  \<^verbatim>\<open>x[i]\<close> with a literal index \<open>0\<close> or \<open>1\<close>: a list gives its element, a string its
  character as a string, a dict has no integer key after \<^verbatim>\<open>json.loads\<close>.
\<close>

fun subscript_int :: "json \<Rightarrow> nat \<Rightarrow> exn + json" where
  "subscript_int (JList xs) i = (if i < length xs then Inr (xs ! i) else Inl IndexError)"
| "subscript_int (JStr cs) i = (if i < length cs then Inr (JStr [cs ! i]) else Inl IndexError)"
| "subscript_int (JObj kvs) i = Inl KeyError"
| "subscript_int _ i = Inl TypeError"

text \<open>\<^verbatim>\<open>x.get(k, d)\<close>: only a dict has the method.\<close>

fun dict_get :: "json \<Rightarrow> string \<Rightarrow> json \<Rightarrow> exn + json" where
  "dict_get (JObj kvs) k d = Inr (case map_of kvs k of None \<Rightarrow> d | Some v \<Rightarrow> v)"
| "dict_get _ k d = Inl AttributeError"

text \<open>
  Python's \<^verbatim>\<open>==\<close> on such values: numbers compare by value (\<^verbatim>\<open>True == 1\<close>,
  \<^verbatim>\<open>1 == 1.0\<close>), lists element by element, dicts key by key whatever the order.
  \<open>canon\<close> maps a value to a normal form on which HOL's equality is Python's.
\<close>

primrec canon :: "json \<Rightarrow> json" where
  "canon JNull = JNull"
| "canon (JBool b) = JReal (if b then 1 else 0)"
| "canon (JInt i) = JReal (of_int i)"
| "canon (JReal r) = JReal r"
| "canon (JStr s) = JStr s"
| "canon (JList xs) = JList (map canon xs)"
| "canon (JObj kvs) = JObj (sort_key fst (AList.clearjunk (map (map_prod id canon) kvs)))"

definition py_eq :: "json \<Rightarrow> json \<Rightarrow> bool" where
  "py_eq a b = (canon a = canon b)"

text \<open>\<^verbatim>\<open>str(n)\<close> for an int, as an f-string formats it.\<close>

fun str_nat :: "nat \<Rightarrow> string" where
  "str_nat n = (if n < 10 then [''0123456789'' ! n]
                else str_nat (n div 10) @ [''0123456789'' ! (n mod 10)])"

declare str_nat.simps [simp del]

definition str_int :: "int \<Rightarrow> string" where
  "str_int i = (if i < 0 then ''-'' @ str_nat (nat (- i)) else str_nat (nat i))"

text \<open>
  \<^verbatim>\<open>s.strip()\<close>: white space is removed at both ends. \<open>is_space\<close> is
  \<^verbatim>\<open>str.isspace\<close> on the code points below 256: the space, U+0009 to U+000D, U+001C
  to U+001F, U+0085 and U+00A0.
\<close>

definition is_space :: "char \<Rightarrow> bool" where
  "is_space c = (c \<in> set [CHR '' '', CHR 0x09, CHR 0x0A, CHR 0x0B, CHR 0x0C, CHR 0x0D,
                           CHR 0x1C, CHR 0x1D, CHR 0x1E, CHR 0x1F, CHR 0x85, CHR 0xA0])"

definition strip :: "string \<Rightarrow> string" where
  "strip s = rev (dropWhile is_space (rev (dropWhile is_space s)))"

section \<open>The outside world\<close>

text \<open>\<^verbatim>\<open>subprocess.CompletedProcess\<close> with \<^verbatim>\<open>capture_output=True, text=True\<close>.\<close>

record proc =
  returncode :: int
  stdout :: string

text \<open>
  What the Kubernetes client returns from \<^verbatim>\<open>list_namespaced_service\<close>, with the
  attributes \<^verbatim>\<open>get_prometheus_url\<close> reads; an attribute that is \<^verbatim>\<open>None\<close> is \<open>None\<close>.
\<close>

record service_port =
  node_port :: "int option"

record service_spec =
  ports :: "service_port list option"

record service =
  spec :: "service_spec option"

text \<open>
  The four PromQL expressions of \<^verbatim>\<open>get_prometheus_metrics\<close>, in source order: the
  non-idle CPU percentage, the memory percentage, the root file system percentage and
  \<^verbatim>\<open>kube_pod_status_phase\<close> of the namespace \<^verbatim>\<open>monitoring\<close>.
\<close>

datatype query = CpuQuery | MemoryQuery | DiskQuery | PodsQuery

text \<open>The lines the modelled functions print, with the values they interpolate.\<close>

datatype msg =
  StatusLine json json
  | DeploymentReady
  | ServiceUrl string json
  | StatusError exn
  | NotConnected
  | MetricsHeader
  | CpuLine json
  | MemoryLine json
  | DiskLine json
  | PodsLine json
  | MetricsError exn
  | Deploying
  | DeploymentFileFixed
  | BuildingImage
  | LoadingImage
  | ApplyingManifests
  | Deployed
  | DeployError exn

text \<open>Everything a call does to the outside, in the order it does it.\<close>

datatype event =
  Run "string list"
  | WriteFile string
  | LoadKubeConfig
  | ListServices string string
  | Query query
  | Print msg

text \<open>
  The answers of the outside world. Each effect happens at a position of the event
  sequence, and the answer may depend on that position, so a status that changes from
  one query to the next is a world like any other. \<open>Inl\<close> is the exception raised.
  \<open>json_loads\<close> is the library's parser: its result on each text is a parameter.
\<close>

record world =
  run :: "nat \<Rightarrow> string list \<Rightarrow> exn + proc"
  json_loads :: "string \<Rightarrow> exn + json"
  write_file :: "nat \<Rightarrow> string \<Rightarrow> exn + unit"
  load_kube_config :: "nat \<Rightarrow> exn + unit"
  list_namespaced_service :: "nat \<Rightarrow> string \<Rightarrow> string \<Rightarrow> exn + service list"
  custom_query :: "nat \<Rightarrow> query \<Rightarrow> exn + json list"

text \<open>
  A computation started at position \<open>t\<close> returns a value or the exception that left
  it, and the events it caused.
\<close>

type_synonym 'a io = "nat \<Rightarrow> (exn + 'a) \<times> event list"

definition io_return :: "'a \<Rightarrow> 'a io" where
  "io_return a t = (Inr a, [])"

definition io_lift :: "exn + 'a \<Rightarrow> 'a io" where
  "io_lift r t = (r, [])"

definition io_bind :: "'a io \<Rightarrow> ('a \<Rightarrow> 'b io) \<Rightarrow> 'b io" where
  "io_bind m f t =
     (case m t of
        (Inl e, evs) \<Rightarrow> (Inl e, evs)
      | (Inr a, evs) \<Rightarrow> (case f a (t + length evs) of (r, evs') \<Rightarrow> (r, evs @ evs')))"

text \<open>A call of a method that handles every exception itself.\<close>

definition io_total :: "(nat \<Rightarrow> 'a \<times> event list) \<Rightarrow> 'a io" where
  "io_total f t = (case f t of (a, evs) \<Rightarrow> (Inr a, evs))"

definition exn_bind :: "exn + 'a \<Rightarrow> ('a \<Rightarrow> exn + 'b) \<Rightarrow> exn + 'b" where
  "exn_bind r f = (case r of Inl e \<Rightarrow> Inl e | Inr a \<Rightarrow> f a)"

text \<open>
  Writing a line to the console is taken not to raise. Exceptions that are not an
  \<^verbatim>\<open>Exception\<close> (an interrupt from the keyboard) are outside the model.
\<close>

definition print :: "msg \<Rightarrow> unit io" where
  "print m t = (Inr (), [Print m])"

definition subprocess_run :: "world \<Rightarrow> string list \<Rightarrow> proc io" where
  "subprocess_run w argv t = (run w t argv, [Run argv])"

definition open_write :: "world \<Rightarrow> string \<Rightarrow> unit io" where
  "open_write w name t = (write_file w t name, [WriteFile name])"

section \<open>KubernetesMonitor\<close>

record monitor =
  namespace :: string
  prometheus :: "string option"

definition KubernetesMonitor_init :: "string \<Rightarrow> monitor" where
  "KubernetesMonitor_init ns = \<lparr>namespace = ns, prometheus = None\<rparr>"

subsection \<open>get_minikube_ip\<close>

definition get_minikube_ip :: "world \<Rightarrow> nat \<Rightarrow> string \<times> event list" where
  "get_minikube_ip w t =
     (case subprocess_run w [''minikube'', ''ip''] t of
        (Inr result, evs) \<Rightarrow> (strip (stdout result), evs)
      | (Inl e, evs) \<Rightarrow> (''192.168.49.2'', evs))"

subsection \<open>check_deployment_status\<close>

definition get_deployment_argv :: "string list" where
  "get_deployment_argv = [''kubectl'', ''get'', ''deployment'', ''my-docker-app'', ''-o'', ''json'']"

definition get_svc_argv :: "string list" where
  "get_svc_argv = [''kubectl'', ''get'', ''svc'', ''my-docker-service'', ''-o'', ''json'']"

text \<open>
  \<^verbatim>\<open>ready = data['status'].get('readyReplicas', 0)\<close> and
  \<^verbatim>\<open>total = data['spec']['replicas']\<close>.
\<close>

definition replica_counts :: "json \<Rightarrow> exn + (json \<times> json)" where
  "replica_counts data =
     exn_bind (subscript_key data ''status'') (\<lambda>status.
     exn_bind (dict_get status ''readyReplicas'' (JInt 0)) (\<lambda>ready.
     exn_bind (subscript_key data ''spec'') (\<lambda>sp.
     exn_bind (subscript_key sp ''replicas'') (\<lambda>total.
     Inr (ready, total)))))"

text \<open>\<^verbatim>\<open>svc_data['spec']['ports'][0]['nodePort']\<close>.\<close>

definition service_node_port :: "json \<Rightarrow> exn + json" where
  "service_node_port svc_data =
     exn_bind (subscript_key svc_data ''spec'') (\<lambda>sp.
     exn_bind (subscript_key sp ''ports'') (\<lambda>ps.
     exn_bind (subscript_int ps 0) (\<lambda>p.
     subscript_key p ''nodePort'')))"

text \<open>The lines under \<^verbatim>\<open>if ready == total:\<close>.\<close>

definition show_service_url :: "world \<Rightarrow> unit io" where
  "show_service_url w =
     io_bind (print DeploymentReady) (\<lambda>_.
     io_bind (subprocess_run w get_svc_argv) (\<lambda>service_result.
     if returncode service_result = 0 then
       io_bind (io_lift (json_loads w (stdout service_result))) (\<lambda>svc_data.
       io_bind (io_lift (service_node_port svc_data)) (\<lambda>node_port.
       io_bind (io_total (get_minikube_ip w)) (\<lambda>ip.
       print (ServiceUrl ip node_port))))
     else io_return ()))"

text \<open>The body of the \<^verbatim>\<open>try\<close>.\<close>

definition check_deployment_status_body :: "world \<Rightarrow> bool io" where
  "check_deployment_status_body w =
     io_bind (subprocess_run w get_deployment_argv) (\<lambda>result.
     if returncode result = 0 then
       io_bind (io_lift (json_loads w (stdout result))) (\<lambda>data.
       io_bind (io_lift (replica_counts data)) (\<lambda>(ready, total).
       io_bind (print (StatusLine ready total)) (\<lambda>_.
       io_bind (if py_eq ready total then show_service_url w else io_return ()) (\<lambda>_.
       io_return (py_eq ready total)))))
     else io_return False)"

definition check_deployment_status :: "world \<Rightarrow> nat \<Rightarrow> bool \<times> event list" where
  "check_deployment_status w t =
     (case check_deployment_status_body w t of
        (Inr b, evs) \<Rightarrow> (b, evs)
      | (Inl e, evs) \<Rightarrow> (False, evs @ [Print (StatusError e)]))"

subsection \<open>get_prometheus_url\<close>

definition config_load_kube_config :: "world \<Rightarrow> unit io" where
  "config_load_kube_config w t = (load_kube_config w t, [LoadKubeConfig])"

definition v1_list_namespaced_service :: "world \<Rightarrow> string \<Rightarrow> string \<Rightarrow> service list io" where
  "v1_list_namespaced_service w ns selector t =
     (list_namespaced_service w t ns selector, [ListServices ns selector])"

text \<open>
  The \<^verbatim>\<open>for svc in services.items\<close> loop: \<open>Some url\<close> is the \<^verbatim>\<open>return\<close> inside the
  loop, \<open>None\<close> the loop running to its end. \<^verbatim>\<open>svc.spec.ports\<close> of a service without
  \<^verbatim>\<open>spec\<close> raises; an empty or missing port list and a missing or zero node port are
  falsy and go on to the next service.
\<close>

fun url_loop :: "world \<Rightarrow> service list \<Rightarrow> string option io" where
  "url_loop w [] t = (Inr None, [])"
| "url_loop w (svc # rest) t =
     (case spec svc of
        None \<Rightarrow> (Inl AttributeError, [])
      | Some sp \<Rightarrow>
          (case ports sp of
             Some (p # ps) \<Rightarrow>
               (case node_port p of
                  Some port \<Rightarrow>
                    if port \<noteq> 0 then
                      (case get_minikube_ip w t of
                         (node_ip, evs) \<Rightarrow>
                           (Inr (Some (''http://'' @ node_ip @ '':'' @ str_int port)), evs))
                    else url_loop w rest t
                | None \<Rightarrow> url_loop w rest t)
           | _ \<Rightarrow> url_loop w rest t))"

definition fallback_url :: string where
  "fallback_url = ''http://localhost:9090''"

definition get_prometheus_url_body :: "monitor \<Rightarrow> world \<Rightarrow> string io" where
  "get_prometheus_url_body self w =
     io_bind (config_load_kube_config w) (\<lambda>_.
     io_bind (v1_list_namespaced_service w (namespace self) ''app=prometheus'') (\<lambda>services.
     io_bind (url_loop w services) (\<lambda>r.
     case r of Some url \<Rightarrow> io_return url | None \<Rightarrow> io_return fallback_url)))"

definition get_prometheus_url :: "monitor \<Rightarrow> world \<Rightarrow> nat \<Rightarrow> string \<times> event list" where
  "get_prometheus_url self w t =
     (case get_prometheus_url_body self w t of
        (Inr url, evs) \<Rightarrow> (url, evs)
      | (Inl e, evs) \<Rightarrow> (fallback_url, evs))"

subsection \<open>get_prometheus_metrics\<close>

definition prometheus_custom_query :: "world \<Rightarrow> query \<Rightarrow> json list io" where
  "prometheus_custom_query w q t = (custom_query w t q, [Query q])"

text \<open>\<^verbatim>\<open>x['value'][1]\<close> of a sample \<open>x\<close>.\<close>

definition sample_value :: "json \<Rightarrow> exn + json" where
  "sample_value x = exn_bind (subscript_key x ''value'') (\<lambda>v. subscript_int v 1)"

text \<open>\<^verbatim>\<open>result[0]['value'][1] if result else "N/A"\<close>.\<close>

definition metric_field :: "json list \<Rightarrow> exn + json" where
  "metric_field result = (case result of [] \<Rightarrow> Inr (JStr ''N/A'') | x # _ \<Rightarrow> sample_value x)"

text \<open>\<^verbatim>\<open>len(pods_result) if pods_result else 0\<close>.\<close>

definition pods_field :: "json list \<Rightarrow> json" where
  "pods_field result = (if result \<noteq> [] then JInt (int (length result)) else JInt 0)"

definition get_prometheus_metrics_body :: "world \<Rightarrow> (string \<rightharpoonup> json) io" where
  "get_prometheus_metrics_body w =
     io_bind (prometheus_custom_query w CpuQuery) (\<lambda>cpu_result.
     io_bind (io_lift (metric_field cpu_result)) (\<lambda>cpu.
     io_bind (prometheus_custom_query w MemoryQuery) (\<lambda>memory_result.
     io_bind (io_lift (metric_field memory_result)) (\<lambda>memory.
     io_bind (prometheus_custom_query w DiskQuery) (\<lambda>disk_result.
     io_bind (io_lift (metric_field disk_result)) (\<lambda>disk.
     io_bind (prometheus_custom_query w PodsQuery) (\<lambda>pods_result.
     io_bind (print MetricsHeader) (\<lambda>_.
     io_bind (print (CpuLine cpu)) (\<lambda>_.
     io_bind (print (MemoryLine memory)) (\<lambda>_.
     io_bind (print (DiskLine disk)) (\<lambda>_.
     io_bind (print (PodsLine (pods_field pods_result))) (\<lambda>_.
     io_return [''cpu'' \<mapsto> cpu, ''memory'' \<mapsto> memory, ''disk'' \<mapsto> disk,
                ''pods'' \<mapsto> pods_field pods_result]))))))))))))"

definition get_prometheus_metrics ::
  "monitor \<Rightarrow> world \<Rightarrow> nat \<Rightarrow> (string \<rightharpoonup> json) \<times> event list" where
  "get_prometheus_metrics self w t =
     (case prometheus self of
        None \<Rightarrow> (Map.empty, [Print NotConnected])
      | Some client \<Rightarrow>
          (case get_prometheus_metrics_body w t of
             (Inr metrics, evs) \<Rightarrow> (metrics, evs)
           | (Inl e, evs) \<Rightarrow> (Map.empty, evs @ [Print (MetricsError e)])))"

subsection \<open>deploy_application\<close>

definition docker_build_argv :: "string list" where
  "docker_build_argv = [''docker'', ''build'', ''-t'', ''my-docker-app:latest'', ''.'']"

definition image_load_argv :: "string list" where
  "image_load_argv = [''minikube'', ''image'', ''load'', ''my-docker-app:latest'']"

definition apply_deployment_argv :: "string list" where
  "apply_deployment_argv = [''kubectl'', ''apply'', ''-f'', ''deployment.yaml'']"

definition apply_service_argv :: "string list" where
  "apply_service_argv = [''kubectl'', ''apply'', ''-f'', ''service.yaml'']"

text \<open>The manifest text written is a constant of the source (one replica).\<close>

definition fix_deployment_file :: "world \<Rightarrow> unit io" where
  "fix_deployment_file w =
     io_bind (open_write w ''deployment.yaml'') (\<lambda>_. print DeploymentFileFixed)"

definition deploy_application_body :: "world \<Rightarrow> bool io" where
  "deploy_application_body w =
     io_bind (fix_deployment_file w) (\<lambda>_.
     io_bind (print BuildingImage) (\<lambda>_.
     io_bind (subprocess_run w docker_build_argv) (\<lambda>_.
     io_bind (print LoadingImage) (\<lambda>_.
     io_bind (subprocess_run w image_load_argv) (\<lambda>_.
     io_bind (print ApplyingManifests) (\<lambda>_.
     io_bind (subprocess_run w apply_deployment_argv) (\<lambda>_.
     io_bind (subprocess_run w apply_service_argv) (\<lambda>_.
     io_bind (io_total (check_deployment_status w)) (\<lambda>_.
     io_bind (print Deployed) (\<lambda>_.
     io_return True))))))))))"

text \<open>The first line is printed before the \<^verbatim>\<open>try\<close>.\<close>

definition deploy_application :: "world \<Rightarrow> nat \<Rightarrow> bool \<times> event list" where
  "deploy_application w t =
     (case deploy_application_body w (Suc t) of
        (Inr b, evs) \<Rightarrow> (b, Print Deploying # evs)
      | (Inl e, evs) \<Rightarrow> (False, Print Deploying # evs @ [Print (DeployError e)]))"

section \<open>What a call observes\<close>

text \<open>
  The replica counts that the status query issued at position \<open>t\<close> shows
  (\<^verbatim>\<open>check_deployment_status\<close>, from \<^verbatim>\<open>subprocess.run\<close> to \<^verbatim>\<open>total = ...\<close>):
  \<open>None\<close> when the command raises or exits with a non-zero code, when its output
  is not JSON, or when the counts cannot be read from it.
\<close>

definition observed_counts :: "world \<Rightarrow> nat \<Rightarrow> (json \<times> json) option" where
  "observed_counts w t =
     (case run w t get_deployment_argv of
        Inl e \<Rightarrow> None
      | Inr result \<Rightarrow>
          if returncode result = 0 then
            (case exn_bind (json_loads w (stdout result)) replica_counts of
               Inl e \<Rightarrow> None
             | Inr counts \<Rightarrow> Some counts)
          else None)"

text \<open>Convergence: the query at position \<open>t\<close> shows \<^verbatim>\<open>ready == total\<close>.\<close>

definition converged :: "world \<Rightarrow> nat \<Rightarrow> bool" where
  "converged w t =
     (case observed_counts w t of None \<Rightarrow> False | Some (ready, declared) \<Rightarrow> py_eq ready declared)"




text \<open>A query has been sent to Prometheus.\<close>

fun is_query :: "event \<Rightarrow> bool" where
  "is_query (Query q) = True"
| "is_query _ = False"

definition metrics_queried :: "event list \<Rightarrow> bool" where
  "metrics_queried evs = list_ex is_query evs"

text \<open>
  The node port that \<^verbatim>\<open>get_prometheus_url\<close> reads from a service: the one of its first
  port entry, when the port list is not empty and the port is set and not zero.
\<close>

definition first_node_port :: "service_spec \<Rightarrow> int option" where
  "first_node_port sp =
     (case ports sp of
        Some (p # ps) \<Rightarrow>
          (case node_port p of Some port \<Rightarrow> if port \<noteq> 0 then Some port else None | None \<Rightarrow> None)
      | _ \<Rightarrow> None)"

section \<open>Concrete worlds\<close>

text \<open>
  Outputs of \<^verbatim>\<open>kubectl get ... -o json\<close>, cut down to the fields that are read, and
  what \<^verbatim>\<open>json.loads\<close> makes of them. A deployment with no ready replica has no
  \<^verbatim>\<open>readyReplicas\<close> in its status; a service of type ClusterIP has no \<^verbatim>\<open>nodePort\<close>.
\<close>

definition not_ready_text :: string where
  \<open>not_ready_text = ''{"spec":{"replicas":1},"status":{}}''\<close>

definition ready_text :: string where
  \<open>ready_text = ''{"spec":{"replicas":1},"status":{"readyReplicas":1}}''\<close>

definition node_port_text :: string where
  \<open>node_port_text = ''{"spec":{"ports":[{"nodePort":30080,"port":5000}],"type":"NodePort"}}''\<close>

definition cluster_ip_text :: string where
  \<open>cluster_ip_text = ''{"spec":{"ports":[{"port":5000}],"type":"ClusterIP"}}''\<close>

definition kubectl_json :: "string \<Rightarrow> exn + json" where
  "kubectl_json s =
     (if s = not_ready_text then
        Inr (JObj [(''spec'', JObj [(''replicas'', JInt 1)]), (''status'', JObj [])])
      else if s = ready_text then
        Inr (JObj [(''spec'', JObj [(''replicas'', JInt 1)]),
                   (''status'', JObj [(''readyReplicas'', JInt 1)])])
      else if s = node_port_text then
        Inr (JObj [(''spec'', JObj [(''ports'', JList [JObj [(''nodePort'', JInt 30080),
                                                              (''port'', JInt 5000)]]),
                                    (''type'', JStr ''NodePort'')])])
      else if s = cluster_ip_text then
        Inr (JObj [(''spec'', JObj [(''ports'', JList [JObj [(''port'', JInt 5000)]]),
                                    (''type'', JStr ''ClusterIP'')])])
      else Inl JSONDecodeError)"

text \<open>
  A cluster where every command completes: the deployment query prints
  \<open>deployment t\<close> at position \<open>t\<close>, the service query answers \<open>svc\<close>,
  \<^verbatim>\<open>minikube ip\<close> prints the node address, \<^verbatim>\<open>kubectl apply -f service.yaml\<close> exits
  with \<open>apply_rc\<close> and every other command with 0. No Prometheus service is listed and
  every metric query returns no series.
\<close>

definition cluster :: "(nat \<Rightarrow> string) \<Rightarrow> proc \<Rightarrow> int \<Rightarrow> world" where
  "cluster deployment svc apply_rc =
     \<lparr>run = (\<lambda>t argv.
        if argv = get_deployment_argv then Inr \<lparr>returncode = 0, stdout = deployment t\<rparr>
        else if argv = get_svc_argv then Inr svc
        else if argv = [''minikube'', ''ip''] then
          Inr \<lparr>returncode = 0, stdout = ''192.168.49.2'' @ [CHR 0x0A]\<rparr>
        else if argv = apply_service_argv then Inr \<lparr>returncode = apply_rc, stdout = []\<rparr>
        else Inr \<lparr>returncode = 0, stdout = []\<rparr>),
      json_loads = kubectl_json,
      write_file = (\<lambda>t name. Inr ()),
      load_kube_config = (\<lambda>t. Inr ()),
      list_namespaced_service = (\<lambda>t ns selector. Inr []),
      custom_query = (\<lambda>t q. Inr [])\<rparr>"

text \<open>The replica is not ready at the first query and ready at every later one.\<close>

definition world_ready_late :: world where
  "world_ready_late =
     cluster (\<lambda>t. if t = 0 then not_ready_text else ready_text)
       \<lparr>returncode = 0, stdout = node_port_text\<rparr> 0"

definition world_never_ready :: world where
  "world_never_ready = cluster (\<lambda>t. not_ready_text) \<lparr>returncode = 0, stdout = node_port_text\<rparr> 0"

text \<open>The replica is ready and the service is exposed on node port 30080.\<close>

definition world_node_port :: world where
  "world_node_port = cluster (\<lambda>t. ready_text) \<lparr>returncode = 0, stdout = node_port_text\<rparr> 0"

text \<open>The replica is ready and the service is of type ClusterIP.\<close>

definition world_cluster_ip :: world where
  "world_cluster_ip = cluster (\<lambda>t. ready_text) \<lparr>returncode = 0, stdout = cluster_ip_text\<rparr> 0"


text \<open>The deployment is applied and \<^verbatim>\<open>kubectl apply -f service.yaml\<close> exits with 1.\<close>

definition world_service_apply_fails :: world where
  "world_service_apply_fails =
     cluster (\<lambda>t. ready_text) \<lparr>returncode = 0, stdout = node_port_text\<rparr> 1"

text \<open>One sample of an instant vector, as \<^verbatim>\<open>custom_query\<close> returns it.\<close>

definition sample :: "string \<Rightarrow> json" where
  "sample v = JObj [(''metric'', JObj [(''instance'', JStr ''minikube'')]),
                    (''value'', JList [JReal 1700000000.781, JStr v])]"

definition with_metrics :: "(query \<Rightarrow> exn + json list) \<Rightarrow> world" where
  "with_metrics answer = world_node_port\<lparr>custom_query := (\<lambda>t q. answer q)\<rparr>"

definition world_all_metrics :: world where
  "world_all_metrics =
     with_metrics (\<lambda>q. case q of
        CpuQuery \<Rightarrow> Inr [sample ''42.1'', sample ''17.0'']
      | MemoryQuery \<Rightarrow> Inr [sample ''63.0'']
      | DiskQuery \<Rightarrow> Inr [sample ''5.3'']
      | PodsQuery \<Rightarrow> Inr [sample ''1'', sample ''1'', sample ''1''])"

text \<open>The memory query fails in the transport; the three others have data.\<close>

definition world_memory_timeout :: world where
  "world_memory_timeout =
     with_metrics (\<lambda>q. case q of
        CpuQuery \<Rightarrow> Inr [sample ''42.1'']
      | MemoryQuery \<Rightarrow> Inl OSError
      | DiskQuery \<Rightarrow> Inr [sample ''5.3'']
      | PodsQuery \<Rightarrow> Inr [sample ''1'', sample ''1'', sample ''1''])"

definition world_disk_empty :: world where
  "world_disk_empty =
     with_metrics (\<lambda>q. case q of
        CpuQuery \<Rightarrow> Inr [sample ''42.1'', sample ''17.0'']
      | MemoryQuery \<Rightarrow> Inr [sample ''63.0'']
      | DiskQuery \<Rightarrow> Inr []
      | PodsQuery \<Rightarrow> Inr [sample ''1'', sample ''1'', sample ''1''])"

definition world_no_data :: world where
  "world_no_data = with_metrics (\<lambda>q. Inr [])"

definition connected_monitor :: monitor where
  "connected_monitor = \<lparr>namespace = ''monitoring'', prometheus = Some ''http://localhost:9090''\<rparr>"

text \<open>A service whose only port entry has the node port \<open>p\<close>.\<close>

definition node_port_service :: "int option \<Rightarrow> service" where
  "node_port_service p = \<lparr>spec = Some \<lparr>ports = Some [\<lparr>node_port = p\<rparr>]\<rparr>\<rparr>"

text \<open>
  The Kubernetes API as \<^verbatim>\<open>get_prometheus_url\<close> meets it: the outcome of
  \<^verbatim>\<open>load_kube_config\<close> and the services listed for \<^verbatim>\<open>app=prometheus\<close> in
  \<^verbatim>\<open>monitoring\<close>.
\<close>

text \<open>A service whose second port entry only has a node port.\<close>

definition second_port_service :: service where
  "second_port_service =
     \<lparr>spec = Some \<lparr>ports = Some [\<lparr>node_port = None\<rparr>, \<lparr>node_port = Some 30090\<rparr>]\<rparr>\<rparr>"

text \<open>The world \<open>w\<close> with another outcome of \<^verbatim>\<open>minikube ip\<close>.\<close>

definition with_minikube_ip :: "exn + proc \<Rightarrow> world \<Rightarrow> world" where
  "with_minikube_ip answer w =
     w\<lparr>run := (\<lambda>t argv. if argv = [''minikube'', ''ip''] then answer else run w t argv)\<rparr>"

definition with_services :: "exn + unit \<Rightarrow> exn + service list \<Rightarrow> world" where
  "with_services kube_config services =
     world_node_port\<lparr>load_kube_config := (\<lambda>t. kube_config),
                     list_namespaced_service := (\<lambda>t ns selector.
                        if ns = ''monitoring'' \<and> selector = ''app=prometheus'' then services
                        else Inr [])\<rparr>"

section \<open>Evaluation lemmas\<close>

lemma str_nat_numeral [simp]:
  "str_nat (numeral k) =
     (if numeral k < (10::nat) then [''0123456789'' ! numeral k]
      else str_nat (numeral k div 10) @ [''0123456789'' ! (numeral k mod 10)])"
  by (rule str_nat.simps)

lemma str_nat_0 [simp]: "str_nat 0 = ''0''"
  by (simp add: str_nat.simps [of 0])

lemma str_nat_1 [simp]: "str_nat (Suc 0) = ''1''"
  by (simp add: str_nat.simps [of "Suc 0"])

lemma py_eq_JInt [simp]: "py_eq (JInt a) (JInt b) = (a = b)"
  by (simp add: py_eq_def)

lemma argv_neq [simp]:
  "get_svc_argv \<noteq> get_deployment_argv"
  "get_deployment_argv \<noteq> get_svc_argv"
  "[''minikube'', ''ip''] \<noteq> get_deployment_argv"
  "[''minikube'', ''ip''] \<noteq> get_svc_argv"
  "apply_service_argv \<noteq> get_deployment_argv"
  "apply_service_argv \<noteq> get_svc_argv"
  "apply_service_argv \<noteq> [''minikube'', ''ip'']"
  "apply_deployment_argv \<noteq> get_deployment_argv"
  "apply_deployment_argv \<noteq> get_svc_argv"
  "apply_deployment_argv \<noteq> [''minikube'', ''ip'']"
  "apply_deployment_argv \<noteq> apply_service_argv"
  "docker_build_argv \<noteq> get_deployment_argv"
  "docker_build_argv \<noteq> get_svc_argv"
  "docker_build_argv \<noteq> [''minikube'', ''ip'']"
  "docker_build_argv \<noteq> apply_service_argv"
  "image_load_argv \<noteq> get_deployment_argv"
  "image_load_argv \<noteq> get_svc_argv"
  "image_load_argv \<noteq> [''minikube'', ''ip'']"
  "image_load_argv \<noteq> apply_service_argv"
  by (simp_all add: apply_service_argv_def apply_deployment_argv_def get_deployment_argv_def
      get_svc_argv_def docker_build_argv_def image_load_argv_def)

lemmas io_defs = io_bind_def io_return_def io_lift_def io_total_def print_def subprocess_run_def

lemmas fixture_defs = cluster_def kubectl_json_def not_ready_text_def ready_text_def
  node_port_text_def cluster_ip_text_def

lemmas status_eval = replica_counts_def service_node_port_def exn_bind_def get_minikube_ip_def
  subprocess_run_def strip_def is_space_def

lemmas metrics_defs = get_prometheus_metrics_def get_prometheus_metrics_body_def
  prometheus_custom_query_def io_bind_def io_return_def io_lift_def print_def

lemmas metrics_fixture_defs = with_metrics_def world_node_port_def cluster_def
  connected_monitor_def sample_def metric_field_def sample_value_def exn_bind_def pods_field_def

lemmas url_defs = get_prometheus_url_def get_prometheus_url_body_def config_load_kube_config_def
  v1_list_namespaced_service_def io_bind_def io_return_def

lemmas deploy_defs = deploy_application_def deploy_application_body_def fix_deployment_file_def
  open_write_def subprocess_run_def print_def io_bind_def io_return_def io_total_def

section \<open>The paths of check_deployment_status\<close>

lemma show_service_url_cases:
  "show_service_url w t =
     (case run w (Suc t) get_svc_argv of
        Inl e \<Rightarrow> (Inl e, [Print DeploymentReady, Run get_svc_argv])
      | Inr r \<Rightarrow>
          if returncode r = 0 then
            (case exn_bind (json_loads w (stdout r)) service_node_port of
               Inl e \<Rightarrow> (Inl e, [Print DeploymentReady, Run get_svc_argv])
             | Inr p \<Rightarrow>
                 (Inr (), [Print DeploymentReady, Run get_svc_argv, Run [''minikube'', ''ip''],
                           Print (ServiceUrl (fst (get_minikube_ip w (t + 2))) p)]))
          else (Inr (), [Print DeploymentReady, Run get_svc_argv]))"
  by (simp add: show_service_url_def io_defs exn_bind_def get_minikube_ip_def
      split: sum.splits prod.splits)

lemma check_deployment_status_cases:
  "check_deployment_status w t =
     (case run w t get_deployment_argv of
        Inl e \<Rightarrow> (False, [Run get_deployment_argv, Print (StatusError e)])
      | Inr result \<Rightarrow>
          if returncode result = 0 then
            (case exn_bind (json_loads w (stdout result)) replica_counts of
               Inl e \<Rightarrow> (False, [Run get_deployment_argv, Print (StatusError e)])
             | Inr (ready, declared) \<Rightarrow>
                 if py_eq ready declared then
                   (case show_service_url w (t + 2) of
                      (Inl e, evs) \<Rightarrow>
                        (False, [Run get_deployment_argv, Print (StatusLine ready declared)]
                                @ evs @ [Print (StatusError e)])
                    | (Inr u, evs) \<Rightarrow>
                        (True, [Run get_deployment_argv, Print (StatusLine ready declared)] @ evs))
                 else (False, [Run get_deployment_argv, Print (StatusLine ready declared)]))
          else (False, [Run get_deployment_argv]))"
  by (simp add: check_deployment_status_def check_deployment_status_body_def io_defs exn_bind_def
      split: sum.splits prod.splits)

lemma check_deployment_status_no_query:
  "\<not> metrics_queried (snd (check_deployment_status w t))"
  by (auto simp add: check_deployment_status_cases show_service_url_cases metrics_queried_def
      split: sum.splits prod.splits option.splits if_splits)

section \<open>The loop of get_prometheus_url\<close>

lemma get_minikube_ip_address:
  "fst (get_minikube_ip w t) =
     (case run w t [''minikube'', ''ip''] of
        Inr result \<Rightarrow> strip (stdout result)
      | Inl e \<Rightarrow> ''192.168.49.2'')"
  by (simp add: get_minikube_ip_def subprocess_run_def split: sum.splits)

lemma url_loop_skip:
  "spec svc = Some sp \<Longrightarrow> first_node_port sp = None
   \<Longrightarrow> url_loop w (svc # rest) t = url_loop w rest t"
  by (auto simp add: first_node_port_def split: option.splits list.splits if_splits)

lemma url_loop_hit:
  "spec svc = Some sp \<Longrightarrow> first_node_port sp = Some port
   \<Longrightarrow> url_loop w (svc # rest) t
       = (Inr (Some (''http://'' @ fst (get_minikube_ip w t) @ '':'' @ str_int port)),
          snd (get_minikube_ip w t))"
  by (auto simp add: first_node_port_def split: option.splits list.splits if_splits prod.splits)

lemma url_loop_none:
  "\<forall>svc\<in>set svcs. \<forall>sp. spec svc = Some sp \<longrightarrow> first_node_port sp = None
   \<Longrightarrow> url_loop w svcs t = (Inr None, []) \<or> url_loop w svcs t = (Inl AttributeError, [])"
proof (induction svcs)
  case Nil
  then show ?case by simp
next
  case (Cons a svcs)
  show ?case
  proof (cases "spec a")
    case None
    then show ?thesis by simp
  next
    case (Some sp)
    with Cons.prems have "first_node_port sp = None" by simp
    with Some have "url_loop w (a # svcs) t = url_loop w svcs t"
      by (rule url_loop_skip)
    with Cons show ?thesis by simp
  qed
qed

lemma url_loop_found:
  "\<forall>x\<in>set pre. \<exists>sp. spec x = Some sp \<and> first_node_port sp = None
   \<Longrightarrow> spec svc = Some sp \<Longrightarrow> first_node_port sp = Some port
   \<Longrightarrow> url_loop w (pre @ svc # rest) t
       = (Inr (Some (''http://'' @ fst (get_minikube_ip w t) @ '':'' @ str_int port)),
          snd (get_minikube_ip w t))"
proof (induction pre)
  case Nil
  from Nil(2,3) show ?case
    unfolding append_Nil by (rule url_loop_hit)
next
  case (Cons a pre)
  from Cons.prems(1) obtain sa where "spec a = Some sa" "first_node_port sa = None"
    by auto
  then have "url_loop w ((a # pre) @ svc # rest) t = url_loop w (pre @ svc # rest) t"
    unfolding append_Cons by (rule url_loop_skip)
  with Cons show ?case by simp
qed

lemma url_loop_no_spec:
  "\<forall>x\<in>set pre. \<exists>sp. spec x = Some sp \<and> first_node_port sp = None
   \<Longrightarrow> spec svc = None
   \<Longrightarrow> url_loop w (pre @ svc # rest) t = (Inl AttributeError, [])"
proof (induction pre)
  case Nil
  then show ?case by simp
next
  case (Cons a pre)
  from Cons.prems(1) obtain sa where "spec a = Some sa" "first_node_port sa = None"
    by auto
  then have "url_loop w ((a # pre) @ svc # rest) t = url_loop w (pre @ svc # rest) t"
    unfolding append_Cons by (rule url_loop_skip)
  with Cons show ?case by simp
qed

section \<open>Claims about check_deployment_status\<close>

text \<open>
  C1, as stated, fails. The claim describes a polling loop with a retry budget.
  In \<open>world_ready_late\<close> the first status query shows 0 of 1 replicas ready and a
  second one, issued right after the call (position 2), would show 1 of 1. The call
  issues the first query only and returns \<open>False\<close>: it never polls again.
\<close>

theorem check_deployment_status_no_retry:
  "check_deployment_status world_ready_late 0
     = (False, [Run get_deployment_argv, Print (StatusLine (JInt 0) (JInt 1))])
   \<and> converged world_ready_late 2"
  by (simp add: check_deployment_status_cases converged_def observed_counts_def
      world_ready_late_def fixture_defs replica_counts_def exn_bind_def)

text \<open>
  C1, amended: every call of \<^verbatim>\<open>check_deployment_status\<close> issues exactly one
  deployment status query, whatever the world answers, and there is no retry budget:
  when that one query does not show \<^verbatim>\<open>ready == total\<close> (or fails), the call
  returns \<open>False\<close>.
\<close>

theorem check_deployment_status_single_query:
  "count_list (snd (check_deployment_status w t)) (Run get_deployment_argv) = 1
   \<and> (\<not> converged w t \<longrightarrow> \<not> fst (check_deployment_status w t))"
  by (auto simp add: check_deployment_status_cases show_service_url_cases converged_def
      observed_counts_def split: sum.splits prod.splits option.splits if_splits)

theorem check_deployment_status_single_query_witness:
  "count_list (snd (check_deployment_status world_never_ready 0)) (Run get_deployment_argv) = 1
   \<and> \<not> converged world_never_ready 0
   \<and> \<not> fst (check_deployment_status world_never_ready 0)"
  using check_deployment_status_single_query [of world_never_ready 0]
  by (simp add: converged_def observed_counts_def world_never_ready_def fixture_defs
      replica_counts_def exn_bind_def)

text \<open>
  C3: the status check should return true exactly when the ready count equals the
  declared count. In \<open>world_cluster_ip\<close> the status query shows 1 of 1 replicas ready,
  and the call prints that the deployment is ready. The service is of type ClusterIP,
  so reading \<^verbatim>\<open>['nodePort']\<close> for the address line raises \<^verbatim>\<open>KeyError\<close>, the handler of
  the whole body catches it, and the call returns \<open>False\<close>.
\<close>

theorem check_deployment_status_ready_but_false:
  "converged world_cluster_ip 0
   \<and> check_deployment_status world_cluster_ip 0
       = (False, [Run get_deployment_argv, Print (StatusLine (JInt 1) (JInt 1)),
                  Print DeploymentReady, Run get_svc_argv, Print (StatusError KeyError)])"
  by (simp add: check_deployment_status_cases show_service_url_cases converged_def
      observed_counts_def world_cluster_ip_def fixture_defs replica_counts_def
      service_node_port_def exn_bind_def)




section \<open>Claims about get_prometheus_url\<close>

text \<open>
  C6, as stated, fails. The claim says that whenever a matching service with an
  assigned node port exists, the node address paired with that port is returned.
  A service whose node port 30090 is on its second port entry only gives the
  fallback; so does a service with node port 30090 listed after a service without
  \<^verbatim>\<open>spec\<close>; and when \<^verbatim>\<open>minikube ip\<close> exits with code 1 and prints nothing, the
  address returned for node port 30090 has no host.
\<close>

theorem get_prometheus_url_misses_node_port:
  "fst (get_prometheus_url connected_monitor
         (with_services (Inr ()) (Inr [second_port_service])) 0)
     = ''http://localhost:9090''
   \<and> fst (get_prometheus_url connected_monitor
         (with_services (Inr ()) (Inr [\<lparr>spec = None\<rparr>, node_port_service (Some 30090)])) 0)
     = ''http://localhost:9090''
   \<and> fst (get_prometheus_url connected_monitor
         (with_minikube_ip (Inr \<lparr>returncode = 1, stdout = []\<rparr>)
            (with_services (Inr ()) (Inr [node_port_service (Some 30090)]))) 0)
     = ''http://:30090''"
  by (simp add: url_defs with_services_def with_minikube_ip_def connected_monitor_def
      second_port_service_def node_port_service_def fallback_url_def get_minikube_ip_def
      subprocess_run_def world_node_port_def cluster_def strip_def str_int_def)

text \<open>
  C6, amended: \<^verbatim>\<open>get_prometheus_url\<close> never raises. It returns the fallback
  \<^verbatim>\<open>http://localhost:9090\<close> when loading the configuration or listing the services
  raises, when no listed service has a non-zero node port on its first port entry
  (no service at all included), and when a service without \<^verbatim>\<open>spec\<close> is met before
  any such service. Otherwise, for the first listed service \<open>svc\<close> whose first port
  entry has a node port, it returns \<^verbatim>\<open>http://\<close>, an address, a colon and that port;
  the address is the output of \<^verbatim>\<open>minikube ip\<close> without the white space around it
  when that command completes (its exit code is not read), and \<^verbatim>\<open>192.168.49.2\<close>
  when it raises.
\<close>

theorem get_prometheus_url_total:
  "(load_kube_config w t = Inl e \<longrightarrow> fst (get_prometheus_url self w t) = fallback_url)
   \<and> (list_namespaced_service w (t + 1) (namespace self) ''app=prometheus'' = Inl e
        \<longrightarrow> fst (get_prometheus_url self w t) = fallback_url)
   \<and> (list_namespaced_service w (t + 1) (namespace self) ''app=prometheus'' = Inr svcs
        \<and> (\<forall>svc\<in>set svcs. \<forall>sp. spec svc = Some sp \<longrightarrow> first_node_port sp = None)
        \<longrightarrow> fst (get_prometheus_url self w t) = fallback_url)
   \<and> (list_namespaced_service w (t + 1) (namespace self) ''app=prometheus''
            = Inr (pre @ svc # rest)
        \<and> (\<forall>x\<in>set pre. \<exists>sp. spec x = Some sp \<and> first_node_port sp = None)
        \<and> spec svc = None
        \<longrightarrow> fst (get_prometheus_url self w t) = fallback_url)
   \<and> (load_kube_config w t = Inr ()
        \<and> list_namespaced_service w (t + 1) (namespace self) ''app=prometheus''
            = Inr (pre @ svc # rest)
        \<and> (\<forall>x\<in>set pre. \<exists>sp. spec x = Some sp \<and> first_node_port sp = None)
        \<and> spec svc = Some sp \<and> first_node_port sp = Some port
        \<longrightarrow> (run w (t + 2) [''minikube'', ''ip''] = Inr result
              \<longrightarrow> fst (get_prometheus_url self w t)
                  = ''http://'' @ strip (stdout result) @ '':'' @ str_int port)
          \<and> (run w (t + 2) [''minikube'', ''ip''] = Inl e'
              \<longrightarrow> fst (get_prometheus_url self w t)
                  = ''http://192.168.49.2:'' @ str_int port))"
proof (intro conjI impI)
  assume "load_kube_config w t = Inl e"
  then show "fst (get_prometheus_url self w t) = fallback_url"
    by (simp add: url_defs)
next
  assume "list_namespaced_service w (t + 1) (namespace self) ''app=prometheus'' = Inl e"
  then show "fst (get_prometheus_url self w t) = fallback_url"
    by (simp add: url_defs split: sum.splits)
next
  assume h: "list_namespaced_service w (t + 1) (namespace self) ''app=prometheus'' = Inr svcs
     \<and> (\<forall>svc\<in>set svcs. \<forall>sp. spec svc = Some sp \<longrightarrow> first_node_port sp = None)"
  from h url_loop_none [of svcs w "t + 2"]
  have "url_loop w svcs (t + 2) = (Inr None, [])
        \<or> url_loop w svcs (t + 2) = (Inl AttributeError, [])"
    by blast
  with h show "fst (get_prometheus_url self w t) = fallback_url"
    by (auto simp add: url_defs eval_nat_numeral split: sum.splits)
next
  assume h: "list_namespaced_service w (t + 1) (namespace self) ''app=prometheus''
            = Inr (pre @ svc # rest)
        \<and> (\<forall>x\<in>set pre. \<exists>sp. spec x = Some sp \<and> first_node_port sp = None)
        \<and> spec svc = None"
  then have "url_loop w (pre @ svc # rest) (t + 2) = (Inl AttributeError, [])"
    using url_loop_no_spec [of pre svc w rest "t + 2"] by blast
  with h show "fst (get_prometheus_url self w t) = fallback_url"
    by (auto simp add: url_defs eval_nat_numeral split: sum.splits)
next
  assume h: "load_kube_config w t = Inr ()
        \<and> list_namespaced_service w (t + 1) (namespace self) ''app=prometheus''
            = Inr (pre @ svc # rest)
        \<and> (\<forall>x\<in>set pre. \<exists>sp. spec x = Some sp \<and> first_node_port sp = None)
        \<and> spec svc = Some sp \<and> first_node_port sp = Some port"
    and ip: "run w (t + 2) [''minikube'', ''ip''] = Inr result"
  from h have "url_loop w (pre @ svc # rest) (t + 2)
       = (Inr (Some (''http://'' @ fst (get_minikube_ip w (t + 2)) @ '':'' @ str_int port)),
          snd (get_minikube_ip w (t + 2)))"
    using url_loop_found [of pre svc sp port w rest "t + 2"] by blast
  with h ip show "fst (get_prometheus_url self w t)
            = ''http://'' @ strip (stdout result) @ '':'' @ str_int port"
    by (simp add: url_defs eval_nat_numeral get_minikube_ip_address)
next
  assume h: "load_kube_config w t = Inr ()
        \<and> list_namespaced_service w (t + 1) (namespace self) ''app=prometheus''
            = Inr (pre @ svc # rest)
        \<and> (\<forall>x\<in>set pre. \<exists>sp. spec x = Some sp \<and> first_node_port sp = None)
        \<and> spec svc = Some sp \<and> first_node_port sp = Some port"
    and ip: "run w (t + 2) [''minikube'', ''ip''] = Inl e'"
  from h have "url_loop w (pre @ svc # rest) (t + 2)
       = (Inr (Some (''http://'' @ fst (get_minikube_ip w (t + 2)) @ '':'' @ str_int port)),
          snd (get_minikube_ip w (t + 2)))"
    using url_loop_found [of pre svc sp port w rest "t + 2"] by blast
  with h ip show "fst (get_prometheus_url self w t) = ''http://192.168.49.2:'' @ str_int port"
    by (simp add: url_defs eval_nat_numeral get_minikube_ip_address)
qed

theorem get_prometheus_url_total_witness:
  "fst (get_prometheus_url connected_monitor
         (with_services (Inl OSError) (Inr [node_port_service (Some 30090)])) 0)
     = ''http://localhost:9090''
   \<and> fst (get_prometheus_url connected_monitor (with_services (Inr ()) (Inl ApiException)) 0)
     = ''http://localhost:9090''
   \<and> fst (get_prometheus_url connected_monitor (with_services (Inr ()) (Inr [])) 0)
     = ''http://localhost:9090''
   \<and> fst (get_prometheus_url connected_monitor
         (with_services (Inr ()) (Inr [node_port_service None])) 0)
     = ''http://localhost:9090''
   \<and> fst (get_prometheus_url connected_monitor
         (with_services (Inr ())
            (Inr [node_port_service None, \<lparr>spec = None\<rparr>, node_port_service (Some 30090)])) 0)
     = ''http://localhost:9090''
   \<and> fst (get_prometheus_url connected_monitor
         (with_minikube_ip (Inr \<lparr>returncode = 0, stdout = ''192.168.58.7'' @ [CHR 0x0A]\<rparr>)
            (with_services (Inr ())
               (Inr [node_port_service None, node_port_service (Some 30090)]))) 0)
     = ''http://192.168.58.7:30090''
   \<and> fst (get_prometheus_url connected_monitor
         (with_minikube_ip (Inl OSError)
            (with_services (Inr ())
               (Inr [node_port_service None, node_port_service (Some 31000)]))) 0)
     = ''http://192.168.49.2:31000''"
  using
    get_prometheus_url_total [where w = "with_services (Inl OSError) (Inr [node_port_service (Some 30090)])"
      and t = 0 and e = OSError and self = connected_monitor]
    get_prometheus_url_total [where w = "with_services (Inr ()) (Inl ApiException)" and t = 0
      and e = ApiException and self = connected_monitor]
    get_prometheus_url_total [where w = "with_services (Inr ()) (Inr [])" and t = 0
      and self = connected_monitor and svcs = "[]"]
    get_prometheus_url_total [where w = "with_services (Inr ()) (Inr [node_port_service None])"
      and t = 0 and self = connected_monitor and svcs = "[node_port_service None]"]
    get_prometheus_url_total [where w = "with_services (Inr ())
        (Inr [node_port_service None, \<lparr>spec = None\<rparr>, node_port_service (Some 30090)])"
      and t = 0 and self = connected_monitor and pre = "[node_port_service None]"
      and svc = "\<lparr>spec = None\<rparr>" and rest = "[node_port_service (Some 30090)]"]
    get_prometheus_url_total [where w = "with_minikube_ip
        (Inr \<lparr>returncode = 0, stdout = ''192.168.58.7'' @ [CHR 0x0A]\<rparr>)
        (with_services (Inr ()) (Inr [node_port_service None, node_port_service (Some 30090)]))"
      and t = 0 and self = connected_monitor and pre = "[node_port_service None]"
      and svc = "node_port_service (Some 30090)" and rest = "[]"
      and sp = "\<lparr>ports = Some [\<lparr>node_port = Some 30090\<rparr>]\<rparr>" and port = 30090
      and result = "\<lparr>returncode = 0, stdout = ''192.168.58.7'' @ [CHR 0x0A]\<rparr>"]
    get_prometheus_url_total [where w = "with_minikube_ip (Inl OSError)
        (with_services (Inr ()) (Inr [node_port_service None, node_port_service (Some 31000)]))"
      and t = 0 and self = connected_monitor and pre = "[node_port_service None]"
      and svc = "node_port_service (Some 31000)" and rest = "[]"
      and sp = "\<lparr>ports = Some [\<lparr>node_port = Some 31000\<rparr>]\<rparr>" and port = 31000
      and e' = OSError]
  by (simp add: with_services_def with_minikube_ip_def connected_monitor_def
      node_port_service_def first_node_port_def fallback_url_def world_node_port_def cluster_def
      strip_def is_space_def str_int_def)

section \<open>Claims about get_prometheus_metrics\<close>

text \<open>
  C2, as stated, fails. The claim says that a failure of one query leaves the other
  three fields populated. In \<open>world_memory_timeout\<close> the CPU and disk queries return a
  sample and the memory query raises: the returned snapshot is empty.
\<close>

theorem metrics_one_failure_empties_snapshot:
  "custom_query world_memory_timeout 0 CpuQuery = Inr [sample ''42.1'']
   \<and> custom_query world_memory_timeout 1 MemoryQuery = Inl OSError
   \<and> custom_query world_memory_timeout 2 DiskQuery = Inr [sample ''5.3'']
   \<and> fst (get_prometheus_metrics connected_monitor world_memory_timeout 0) = Map.empty"
  by (simp add: metrics_defs world_memory_timeout_def metrics_fixture_defs)

text \<open>
  C2, amended: with a connected client, when the four queries return and the first
  sample of every result that has one can be read, each field of the snapshot comes
  from the result of its own query; a result with no series gives \<^verbatim>\<open>"N/A"\<close> for
  its field and leaves the three others as they are. A snapshot that is not empty
  is returned only when all four queries returned: a query that raises empties it.
\<close>

theorem metrics_snapshot_fields:
  assumes "prometheus self = Some client"
  shows "(custom_query w t CpuQuery = Inr cpu_result
          \<and> custom_query w (t + 1) MemoryQuery = Inr memory_result
          \<and> custom_query w (t + 2) DiskQuery = Inr disk_result
          \<and> custom_query w (t + 3) PodsQuery = Inr pods_result
          \<and> metric_field cpu_result = Inr cpu
          \<and> metric_field memory_result = Inr memory
          \<and> metric_field disk_result = Inr disk
          \<longrightarrow> fst (get_prometheus_metrics self w t)
                = [''cpu'' \<mapsto> cpu, ''memory'' \<mapsto> memory, ''disk'' \<mapsto> disk,
                   ''pods'' \<mapsto> pods_field pods_result])
         \<and> metric_field [] = Inr (JStr ''N/A'')
         \<and> (fst (get_prometheus_metrics self w t) \<noteq> Map.empty
              \<longrightarrow> (\<exists>cpu_result memory_result disk_result pods_result.
                     custom_query w t CpuQuery = Inr cpu_result
                     \<and> custom_query w (t + 1) MemoryQuery = Inr memory_result
                     \<and> custom_query w (t + 2) DiskQuery = Inr disk_result
                     \<and> custom_query w (t + 3) PodsQuery = Inr pods_result))"
  using assms
  by (auto simp add: metrics_defs metric_field_def eval_nat_numeral
      split: sum.splits prod.splits)

theorem metrics_snapshot_fields_witness:
  "fst (get_prometheus_metrics connected_monitor world_disk_empty 0)
     = [''cpu'' \<mapsto> JStr ''42.1'', ''memory'' \<mapsto> JStr ''63.0'', ''disk'' \<mapsto> JStr ''N/A'',
        ''pods'' \<mapsto> JInt 3]
   \<and> fst (get_prometheus_metrics connected_monitor world_disk_empty 0) \<noteq> Map.empty
   \<and> custom_query world_disk_empty 2 DiskQuery = Inr []"
  using metrics_snapshot_fields [of connected_monitor "''http://localhost:9090''"
      world_disk_empty 0 "[sample ''42.1'', sample ''17.0'']" "[sample ''63.0'']" "[]"
      "[sample ''1'', sample ''1'', sample ''1'']" "JStr ''42.1''" "JStr ''63.0''" "JStr ''N/A''"]
  by (simp add: world_disk_empty_def metrics_fixture_defs)

text \<open>
  C4, as stated, fails. The claim says that a query without series never yields the
  number zero, the pods field included. In \<open>world_no_data\<close> the pods query returns no
  series and the pods field is the integer 0.
\<close>

theorem metrics_pods_no_data_is_zero:
  "custom_query world_no_data 3 PodsQuery = Inr []
   \<and> fst (get_prometheus_metrics connected_monitor world_no_data 0) ''pods'' = Some (JInt 0)"
  by (simp add: metrics_defs world_no_data_def metrics_fixture_defs)

text \<open>
  C4, amended: in a returned snapshot, the field of a CPU, memory or disk query that
  returned no series is the marker \<^verbatim>\<open>"N/A"\<close>, never a number; the pods field is the
  number of series the pods query returned, which is 0 when it returned none.
\<close>

theorem metrics_no_series_fields:
  "(fst (get_prometheus_metrics self w t) ''cpu'' = Some cpu
      \<and> custom_query w t CpuQuery = Inr [] \<longrightarrow> cpu = JStr ''N/A'')
   \<and> (fst (get_prometheus_metrics self w t) ''memory'' = Some memory
      \<and> custom_query w (t + 1) MemoryQuery = Inr [] \<longrightarrow> memory = JStr ''N/A'')
   \<and> (fst (get_prometheus_metrics self w t) ''disk'' = Some disk
      \<and> custom_query w (t + 2) DiskQuery = Inr [] \<longrightarrow> disk = JStr ''N/A'')
   \<and> (fst (get_prometheus_metrics self w t) ''pods'' = Some pods
      \<longrightarrow> (\<exists>pods_result. custom_query w (t + 3) PodsQuery = Inr pods_result
             \<and> pods = JInt (int (length pods_result))))"
  by (auto simp add: metrics_defs metric_field_def pods_field_def eval_nat_numeral
      split: sum.splits prod.splits option.splits)

theorem metrics_no_series_fields_witness:
  "fst (get_prometheus_metrics connected_monitor world_no_data 0) ''cpu'' = Some (JStr ''N/A'')
   \<and> fst (get_prometheus_metrics connected_monitor world_no_data 0) ''memory'' = Some (JStr ''N/A'')
   \<and> fst (get_prometheus_metrics connected_monitor world_no_data 0) ''disk'' = Some (JStr ''N/A'')
   \<and> fst (get_prometheus_metrics connected_monitor world_no_data 0) ''pods'' = Some (JInt 0)
   \<and> custom_query world_no_data 0 CpuQuery = Inr []
   \<and> custom_query world_no_data 1 MemoryQuery = Inr []
   \<and> custom_query world_no_data 2 DiskQuery = Inr []
   \<and> custom_query world_no_data 3 PodsQuery = Inr []"
  using metrics_no_series_fields [of connected_monitor world_no_data 0 "JStr ''N/A''"
      "JStr ''N/A''" "JStr ''N/A''" "JInt 0"]
  by (simp add: metrics_defs world_no_data_def metrics_fixture_defs)

text \<open>
  C9, as stated, fails. The claim says that the field of every numeric query with
  a result that is not empty equals the value of its first sample. In
  \<open>world_memory_timeout\<close> the CPU query returns a sample with the value 42.1 and the
  memory query raises: the returned snapshot has no CPU field.
\<close>

theorem metrics_first_sample_lost:
  "custom_query world_memory_timeout 0 CpuQuery = Inr [sample ''42.1'']
   \<and> sample_value (sample ''42.1'') = Inr (JStr ''42.1'')
   \<and> fst (get_prometheus_metrics connected_monitor world_memory_timeout 0) ''cpu'' = None"
  by (simp add: metrics_defs world_memory_timeout_def metrics_fixture_defs)

text \<open>
  C9, amended: in a returned snapshot, the field of a CPU, memory or disk query whose
  result is not empty is \<^verbatim>\<open>['value'][1]\<close> of the first sample of that result: one
  instantaneous sample, not an aggregate over the series returned. For each of the
  three queries, the snapshot has that field with that value whenever the client is
  connected, the four queries return, the first sample of the query can be read and
  so can the field of each of the two other numeric queries, whose results may be
  empty.
\<close>

theorem metrics_first_sample:
  "(fst (get_prometheus_metrics self w t) ''cpu'' = Some cpu
      \<and> custom_query w t CpuQuery = Inr (x # xs) \<longrightarrow> sample_value x = Inr cpu)
   \<and> (fst (get_prometheus_metrics self w t) ''memory'' = Some memory
      \<and> custom_query w (t + 1) MemoryQuery = Inr (y # ys) \<longrightarrow> sample_value y = Inr memory)
   \<and> (fst (get_prometheus_metrics self w t) ''disk'' = Some disk
      \<and> custom_query w (t + 2) DiskQuery = Inr (z # zs) \<longrightarrow> sample_value z = Inr disk)
   \<and> (prometheus self = Some client
      \<and> custom_query w t CpuQuery = Inr cpu_result
      \<and> custom_query w (t + 1) MemoryQuery = Inr memory_result
      \<and> custom_query w (t + 2) DiskQuery = Inr disk_result
      \<and> custom_query w (t + 3) PodsQuery = Inr pods_result
      \<and> metric_field cpu_result = Inr cpu'
      \<and> metric_field memory_result = Inr memory'
      \<and> metric_field disk_result = Inr disk'
      \<longrightarrow> (\<forall>a as. cpu_result = a # as
             \<longrightarrow> sample_value a = Inr cpu'
                 \<and> fst (get_prometheus_metrics self w t) ''cpu'' = Some cpu')
          \<and> (\<forall>a as. memory_result = a # as
             \<longrightarrow> sample_value a = Inr memory'
                 \<and> fst (get_prometheus_metrics self w t) ''memory'' = Some memory')
          \<and> (\<forall>a as. disk_result = a # as
             \<longrightarrow> sample_value a = Inr disk'
                 \<and> fst (get_prometheus_metrics self w t) ''disk'' = Some disk'))"
  by (auto simp add: metrics_defs metric_field_def eval_nat_numeral
      split: sum.splits prod.splits option.splits)

theorem metrics_first_sample_witness:
  "fst (get_prometheus_metrics connected_monitor world_disk_empty 0) ''cpu'' = Some (JStr ''42.1'')
   \<and> custom_query world_disk_empty 0 CpuQuery = Inr [sample ''42.1'', sample ''17.0'']
   \<and> sample_value (sample ''42.1'') = Inr (JStr ''42.1'')
   \<and> fst (get_prometheus_metrics connected_monitor world_disk_empty 0) ''memory''
       = Some (JStr ''63.0'')
   \<and> custom_query world_disk_empty 1 MemoryQuery = Inr [sample ''63.0'']
   \<and> custom_query world_disk_empty 2 DiskQuery = Inr []
   \<and> fst (get_prometheus_metrics connected_monitor world_all_metrics 0) ''disk''
       = Some (JStr ''5.3'')
   \<and> custom_query world_all_metrics 2 DiskQuery = Inr [sample ''5.3'']"
  using metrics_first_sample [where self = connected_monitor and w = world_disk_empty
      and t = 0 and client = "''http://localhost:9090''"
      and cpu = "JStr ''42.1''" and x = "sample ''42.1''" and xs = "[sample ''17.0'']"
      and memory = "JStr ''63.0''" and y = "sample ''63.0''" and ys = "[]"
      and cpu_result = "[sample ''42.1'', sample ''17.0'']" and memory_result = "[sample ''63.0'']"
      and disk_result = "[]" and pods_result = "[sample ''1'', sample ''1'', sample ''1'']"
      and cpu' = "JStr ''42.1''" and memory' = "JStr ''63.0''" and disk' = "JStr ''N/A''"]
    metrics_first_sample [where self = connected_monitor and w = world_all_metrics
      and t = 0 and client = "''http://localhost:9090''"
      and disk = "JStr ''5.3''" and z = "sample ''5.3''" and zs = "[]"
      and cpu_result = "[sample ''42.1'', sample ''17.0'']" and memory_result = "[sample ''63.0'']"
      and disk_result = "[sample ''5.3'']" and pods_result = "[sample ''1'', sample ''1'', sample ''1'']"
      and cpu' = "JStr ''42.1''" and memory' = "JStr ''63.0''" and disk' = "JStr ''5.3''"]
  by (simp add: world_disk_empty_def world_all_metrics_def metrics_fixture_defs)

text \<open>
  C10: while the Prometheus handle is unset, \<^verbatim>\<open>get_prometheus_metrics\<close> prints that
  Prometheus is not connected, sends no query and returns the empty mapping.
\<close>

theorem get_prometheus_metrics_unconnected:
  "prometheus self = None
   \<Longrightarrow> get_prometheus_metrics self w t = (Map.empty, [Print NotConnected])
       \<and> \<not> metrics_queried (snd (get_prometheus_metrics self w t))"
  by (simp add: get_prometheus_metrics_def metrics_queried_def)

theorem get_prometheus_metrics_unconnected_witness:
  "prometheus (KubernetesMonitor_init ''monitoring'') = None
   \<and> get_prometheus_metrics (KubernetesMonitor_init ''monitoring'') world_all_metrics 0
       = (Map.empty, [Print NotConnected])
   \<and> \<not> metrics_queried
         (snd (get_prometheus_metrics (KubernetesMonitor_init ''monitoring'') world_all_metrics 0))"
  using get_prometheus_metrics_unconnected [of "KubernetesMonitor_init ''monitoring''"
      world_all_metrics 0]
  by (simp add: KubernetesMonitor_init_def metrics_queried_def)

section \<open>Claims about deploy_application\<close>

text \<open>
  C7, as stated, fails. The claim says that the outcome of each of the two applies
  is reported, so that a partial failure is visible. In \<open>world_service_apply_fails\<close>
  the deployment is applied and \<^verbatim>\<open>kubectl apply -f service.yaml\<close> exits with code 1:
  the call returns \<open>True\<close> and prints what it prints when both applies succeed.
\<close>

theorem deploy_application_partial_failure_hidden:
  "run world_service_apply_fails 8 apply_deployment_argv = Inr \<lparr>returncode = 0, stdout = []\<rparr>
   \<and> run world_service_apply_fails 9 apply_service_argv = Inr \<lparr>returncode = 1, stdout = []\<rparr>
   \<and> deploy_application world_service_apply_fails 0 = deploy_application world_node_port 0
   \<and> fst (deploy_application world_service_apply_fails 0) = True"
  by (simp add: deploy_defs world_service_apply_fails_def world_node_port_def fixture_defs
      check_deployment_status_cases show_service_url_cases replica_counts_def
      service_node_port_def exn_bind_def get_minikube_ip_def strip_def is_space_def)

text \<open>
  C7, amended: \<^verbatim>\<open>deploy_application\<close> returns one boolean and does not read the exit
  codes of the two \<^verbatim>\<open>kubectl apply\<close> commands. Whenever the manifest is written and
  the four commands complete, with any exit codes, it returns \<open>True\<close>, and what it
  prints does not depend on \<open>applied_deployment\<close> and \<open>applied_service\<close>.
\<close>

theorem deploy_application_ignores_apply_results:
  assumes "write_file w (t + 1) ''deployment.yaml'' = Inr ()"
    and "run w (t + 4) docker_build_argv = Inr built"
    and "run w (t + 6) image_load_argv = Inr loaded"
    and "run w (t + 8) apply_deployment_argv = Inr applied_deployment"
    and "run w (t + 9) apply_service_argv = Inr applied_service"
  shows "deploy_application w t =
     (True,
      [Print Deploying, WriteFile ''deployment.yaml'', Print DeploymentFileFixed,
       Print BuildingImage, Run docker_build_argv, Print LoadingImage, Run image_load_argv,
       Print ApplyingManifests, Run apply_deployment_argv, Run apply_service_argv]
      @ snd (check_deployment_status w (t + 10)) @ [Print Deployed])"
  using assms
  by (simp add: deploy_defs eval_nat_numeral split: sum.splits prod.splits)

theorem deploy_application_ignores_apply_results_witness:
  "run world_service_apply_fails 9 apply_service_argv = Inr \<lparr>returncode = 1, stdout = []\<rparr>
   \<and> deploy_application world_service_apply_fails 0 =
     (True,
      [Print Deploying, WriteFile ''deployment.yaml'', Print DeploymentFileFixed,
       Print BuildingImage, Run docker_build_argv, Print LoadingImage, Run image_load_argv,
       Print ApplyingManifests, Run apply_deployment_argv, Run apply_service_argv,
       Run get_deployment_argv, Print (StatusLine (JInt 1) (JInt 1)), Print DeploymentReady,
       Run get_svc_argv, Run [''minikube'', ''ip''],
       Print (ServiceUrl ''192.168.49.2'' (JInt 30080)), Print Deployed])"
  using deploy_application_ignores_apply_results [of world_service_apply_fails 0
      "\<lparr>returncode = 0, stdout = []\<rparr>" "\<lparr>returncode = 0, stdout = []\<rparr>"
      "\<lparr>returncode = 0, stdout = []\<rparr>" "\<lparr>returncode = 1, stdout = []\<rparr>"]
  by (simp add: world_service_apply_fails_def fixture_defs check_deployment_status_cases
      show_service_url_cases status_eval)

text \<open>
  C8, as stated, fails. The claim says that every cycle fetches the metrics, also
  when the deployment has not converged. In \<open>world_never_ready\<close> the status query of
  \<^verbatim>\<open>deploy_application\<close> (position 10) shows 0 of 1 replicas ready; the call returns
  \<open>True\<close> and has sent no query to Prometheus.
\<close>

theorem deploy_application_never_queries:
  "\<not> converged world_never_ready 10
   \<and> \<not> metrics_queried (snd (deploy_application world_never_ready 0))
   \<and> fst (deploy_application world_never_ready 0) = True"
  by (simp add: deploy_defs world_never_ready_def fixture_defs converged_def observed_counts_def
      replica_counts_def exn_bind_def metrics_queried_def check_deployment_status_cases
      show_service_url_cases)

text \<open>
  C8, amended: \<^verbatim>\<open>deploy_application\<close> sends no query to Prometheus, whatever the
  outcome of its steps, and returns a boolean. The metrics are fetched by a separate
  call of \<^verbatim>\<open>get_prometheus_metrics\<close>, whose result depends on the handle and on the
  answers of Prometheus only, not on the state of the deployment.
\<close>

theorem deploy_application_no_metrics:
  "\<not> metrics_queried (snd (deploy_application w t))
   \<and> (custom_query w = custom_query w'
        \<longrightarrow> get_prometheus_metrics self w t = get_prometheus_metrics self w' t)"
proof
  show "\<not> metrics_queried (snd (deploy_application w t))"
    using check_deployment_status_no_query [of w "t + 10"]
    by (auto simp add: deploy_defs metrics_queried_def eval_nat_numeral
        split: sum.splits prod.splits)
next
  show "custom_query w = custom_query w'
        \<longrightarrow> get_prometheus_metrics self w t = get_prometheus_metrics self w' t"
  proof
    assume same: "custom_query w = custom_query w'"
    then have "prometheus_custom_query w = prometheus_custom_query w'"
      by (simp add: prometheus_custom_query_def fun_eq_iff)
    then have "get_prometheus_metrics_body w = get_prometheus_metrics_body w'"
      by (simp add: get_prometheus_metrics_body_def)
    then show "get_prometheus_metrics self w t = get_prometheus_metrics self w' t"
      by (simp add: get_prometheus_metrics_def split: option.splits)
  qed
qed

theorem deploy_application_no_metrics_witness:
  "\<not> metrics_queried (snd (deploy_application world_never_ready 0))
   \<and> custom_query (world_never_ready\<lparr>custom_query := custom_query world_all_metrics\<rparr>)
       = custom_query world_all_metrics
   \<and> get_prometheus_metrics connected_monitor
         (world_never_ready\<lparr>custom_query := custom_query world_all_metrics\<rparr>) 0
       = get_prometheus_metrics connected_monitor world_all_metrics 0"
  using deploy_application_no_metrics [where w = world_all_metrics and t = 0
      and w' = "world_never_ready\<lparr>custom_query := custom_query world_all_metrics\<rparr>"
      and self = connected_monitor]
    deploy_application_no_metrics [where w = world_never_ready and t = 0]
  by simp

end
